theory Spec2Isabelle
  imports Complex_Main "HOL-Library.Word"
begin

section \<open>The pseudo-random engine\<close>

text \<open>
  The code draws all its randomness from \<^verbatim>\<open>std::mt19937\<close>, which belongs to the
  C++ standard library and not to the repository. The engine is therefore a parameter of
  the model: a state type \<open>'e\<close> with the three operations the code uses. Seeding from
  a seed sequence and constructing from a 32-bit value both build the whole engine state
  from their argument; \<^verbatim>\<open>engine()\<close> returns one 32-bit word and steps the state.
\<close>

record 'e mt19937 =
  seed_seq :: "string \<Rightarrow> 'e"
  seed_value :: "32 word \<Rightarrow> 'e"
  generate :: "'e \<Rightarrow> 32 word \<times> 'e"

text \<open>\<^verbatim>\<open>e.discard(k)\<close>, and the warm-up loop \<^verbatim>\<open>for (auto i = 1000; i; --i) engine();\<close>.\<close>

fun discard :: "'e mt19937 \<Rightarrow> nat \<Rightarrow> 'e \<Rightarrow> 'e" where
  "discard G 0 e = e"
| "discard G (Suc k) e = discard G k (snd (generate G e))"

text \<open>\<^verbatim>\<open>state_size\<close> of \<^verbatim>\<open>std::mt19937\<close>.\<close>

definition state_size :: nat where
  "state_size = 624"

section \<open>The Dirichlet tree (dirichlet\_tree.hpp)\<close>

text \<open>
  \<^verbatim>\<open>template <typename NodeType, typename Outcome, class Parameters> class DirichletTree\<close>.
  The three template arguments are type variables \<open>'n\<close>, \<open>'o\<close>, \<open>'p\<close>; the
  member functions of \<^verbatim>\<open>NodeType\<close> and \<^verbatim>\<open>Parameters\<close> that the class calls are
  passed as a record of operations. A node keeps a pointer to the tree's parameters, so
  every node operation receives the current parameters. A node operation may change the
  node it is called on (\<^verbatim>\<open>root\<close> is a pointer) and steps the engine it is given.
\<close>

record ('n, 'o, 'p, 'e) NodeType =
  new_node :: "nat \<Rightarrow> 'p \<Rightarrow> 'n"
  defaultPath :: "'p \<Rightarrow> nat list"
  node_update :: "'p \<Rightarrow> 'n \<Rightarrow> 'o \<Rightarrow> nat list \<Rightarrow> int \<Rightarrow> 'n"
  node_sample :: "'p \<Rightarrow> 'n \<Rightarrow> int \<Rightarrow> nat list \<Rightarrow> 'e \<Rightarrow> 'o list \<times> 'n \<times> 'e"
  node_marginalProbability :: "'p \<Rightarrow> 'n \<Rightarrow> 'o \<Rightarrow> nat list \<Rightarrow> 'e \<Rightarrow> real \<times> 'n \<times> 'e"

record ('n, 'o, 'p, 'e) DirichletTree =
  root :: 'n
  parameters :: 'p
  observed :: "'o list"
  engine :: 'e

definition setSeed ::
  "'e mt19937 \<Rightarrow> string \<Rightarrow> ('n, 'o, 'p, 'e) DirichletTree \<Rightarrow> ('n, 'o, 'p, 'e) DirichletTree" where
  "setSeed G seed t = t\<lparr>engine := discard G 1000 (seed_seq G seed)\<rparr>"

text \<open>The constructor: a new root at depth 0, no observation, the engine seeded and warmed up.\<close>

definition DirichletTree_new ::
  "'e mt19937 \<Rightarrow> ('n, 'o, 'p, 'e) NodeType \<Rightarrow> 'p \<Rightarrow> string \<Rightarrow> ('n, 'o, 'p, 'e) DirichletTree" where
  "DirichletTree_new G T params seed =
     \<lparr>root = new_node T 0 params, parameters = params, observed = [],
      engine = discard G 1000 (seed_seq G seed)\<rparr>"

text \<open>\<^verbatim>\<open>reset\<close>: \<^verbatim>\<open>delete root; root = new NodeType(0, &parameters);\<close> and nothing else.\<close>

definition reset ::
  "('n, 'o, 'p, 'e) NodeType \<Rightarrow> ('n, 'o, 'p, 'e) DirichletTree \<Rightarrow> ('n, 'o, 'p, 'e) DirichletTree" where
  "reset T t = t\<lparr>root := new_node T 0 (parameters t)\<rparr>"

text \<open>
  \<^verbatim>\<open>update(o, count)\<close>: \<^verbatim>\<open>observed.push_back(o)\<close>, then the root is updated along
  the default path.
\<close>

definition update ::
  "('n, 'o, 'p, 'e) NodeType \<Rightarrow> 'o \<Rightarrow> int \<Rightarrow> ('n, 'o, 'p, 'e) DirichletTree
     \<Rightarrow> ('n, 'o, 'p, 'e) DirichletTree" where
  "update T outc count t =
     (let t1 = t\<lparr>observed := observed t @ [outc]\<rparr>;
          path = defaultPath T (parameters t1)
      in t1\<lparr>root := node_update T (parameters t1) (root t1) outc path count\<rparr>)"

text \<open>
  \<^verbatim>\<open>sample(n, engine)\<close> and \<^verbatim>\<open>marginalProbability(o, engine)\<close>. The engine argument
  is a pointer: \<open>None\<close> is \<^verbatim>\<open>nullptr\<close>, and then the tree's own engine is used and
  stepped; otherwise the caller's engine is stepped and handed back.
\<close>

definition sample ::
  "('n, 'o, 'p, 'e) NodeType \<Rightarrow> int \<Rightarrow> 'e option \<Rightarrow> ('n, 'o, 'p, 'e) DirichletTree
     \<Rightarrow> 'o list \<times> 'e option \<times> ('n, 'o, 'p, 'e) DirichletTree" where
  "sample T n eng t =
     (let path = defaultPath T (parameters t) in
      case eng of
        None \<Rightarrow>
          (case node_sample T (parameters t) (root t) n path (engine t) of
             (out, r, e) \<Rightarrow> (out, None, t\<lparr>root := r, engine := e\<rparr>))
      | Some e0 \<Rightarrow>
          (case node_sample T (parameters t) (root t) n path e0 of
             (out, r, e) \<Rightarrow> (out, Some e, t\<lparr>root := r\<rparr>)))"

definition marginalProbability ::
  "('n, 'o, 'p, 'e) NodeType \<Rightarrow> 'o \<Rightarrow> 'e option \<Rightarrow> ('n, 'o, 'p, 'e) DirichletTree
     \<Rightarrow> real \<times> 'e option \<times> ('n, 'o, 'p, 'e) DirichletTree" where
  "marginalProbability T outc eng t =
     (let path = defaultPath T (parameters t) in
      case eng of
        None \<Rightarrow>
          (case node_marginalProbability T (parameters t) (root t) outc path (engine t) of
             (p, r, e) \<Rightarrow> (p, None, t\<lparr>root := r, engine := e\<rparr>))
      | Some e0 \<Rightarrow>
          (case node_marginalProbability T (parameters t) (root t) outc path e0 of
             (p, r, e) \<Rightarrow> (p, Some e, t\<lparr>root := r\<rparr>)))"

text \<open>
  \<^verbatim>\<open>posteriorSets(nSets, N, engine)\<close>. The loop is
  \<^verbatim>\<open>for (auto i = 0; i < N; ++i)\<close>: its bound is \<open>N\<close>, and \<open>nSets\<close> is not read.
  Each round copies the observed list and appends \<^verbatim>\<open>sample(N - n, engine)\<close>, where
  \<open>n\<close> is \<^verbatim>\<open>observed.size()\<close> taken once before the loop. The first argument of the
  loop function counts the rounds that remain.
\<close>

fun posteriorSets_loop ::
  "('n, 'o, 'p, 'e) NodeType \<Rightarrow> nat \<Rightarrow> int \<Rightarrow> 'e option \<Rightarrow> ('n, 'o, 'p, 'e) DirichletTree
     \<Rightarrow> 'o list list \<times> 'e option \<times> ('n, 'o, 'p, 'e) DirichletTree" where
  "posteriorSets_loop T 0 k eng t = ([], eng, t)"
| "posteriorSets_loop T (Suc i) k eng t =
     (let old_outcomes = observed t in
      case sample T k eng t of
        (new_outcomes, engine1, t1) \<Rightarrow>
          (case posteriorSets_loop T i k engine1 t1 of
             (out, engine2, t2) \<Rightarrow> ((old_outcomes @ new_outcomes) # out, engine2, t2)))"

definition posteriorSets ::
  "('n, 'o, 'p, 'e) NodeType \<Rightarrow> int \<Rightarrow> int \<Rightarrow> 'e option \<Rightarrow> ('n, 'o, 'p, 'e) DirichletTree
     \<Rightarrow> 'o list list \<times> 'e option \<times> ('n, 'o, 'p, 'e) DirichletTree" where
  "posteriorSets T nSets N eng t =
     (let n = int (length (observed t))
      in posteriorSets_loop T (nat N) (N - n) eng t)"

section \<open>The R adapter (R\_tree.cpp)\<close>

text \<open>
  A ballot is the list of its preferences, candidate indices in order; a ballot count
  pairs a ballot with a multiplicity. The tree parameters are the five values the
  adapter's constructor passes and its getters read.

  Sizes, counts and indices are \<^verbatim>\<open>unsigned\<close> or \<^verbatim>\<open>size_t\<close> in the source and
  natural numbers here, \<^verbatim>\<open>int\<close> is \<open>int\<close>: the model is the code on values that do
  not overflow. The one subtraction that can wrap around below zero is written out where it
  occurs. Floating-point numbers are real numbers.
\<close>

type_synonym IRVBallot = "nat list"

type_synonym IRVBallotCount = "IRVBallot \<times> nat"

definition nPreferences :: "IRVBallot \<Rightarrow> nat" where
  "nPreferences b = length b"

record IRVParameters =
  nCandidates :: nat
  minDepth :: nat
  maxDepth :: nat
  a0 :: real
  vd :: bool

text \<open>
  \<^verbatim>\<open>Rcpp::stop\<close> raises an exception that carries a message: the error kind the
  specification calls InvalidArgument. Reading a vector outside its bounds and dividing by
  zero are undefined in C++; the model gives them a value of their own rather than some
  result.
\<close>

datatype error = InvalidArgument string | Undefined string

text \<open>
  The adapter's state. Its tree is instantiated with ballot counts as outcomes: the
  adapter hands \<^verbatim>\<open>IRVBallotCount\<close> values to \<^verbatim>\<open>tree->update\<close> and reads
  \<^verbatim>\<open>IRVBallotCount\<close> values back from \<^verbatim>\<open>tree->sample\<close> and
  \<^verbatim>\<open>tree->posteriorSets\<close>.
\<close>

record ('n, 'e) RDirichletTree =
  tree :: "('n, IRVBallotCount, IRVParameters, 'e) DirichletTree"
  candidateVector :: "string list"
  candidateMap :: "string \<rightharpoonup> nat"
  nObserved :: nat
  observedDepths :: "nat set"

text \<open>The constructor's loop over the candidate names: a later duplicate overwrites the index.\<close>

fun parse_candidates ::
  "string list \<Rightarrow> nat \<Rightarrow> string list \<Rightarrow> (string \<rightharpoonup> nat) \<Rightarrow> string list \<times> (string \<rightharpoonup> nat)" where
  "parse_candidates [] cIndex cv cm = (cv, cm)"
| "parse_candidates (cName # rest) cIndex cv cm =
     parse_candidates rest (Suc cIndex) (cv @ [cName]) (cm(cName \<mapsto> cIndex))"

definition RDirichletTree_new ::
  "'e mt19937 \<Rightarrow> ('n, IRVBallotCount, IRVParameters, 'e) NodeType \<Rightarrow> string list \<Rightarrow> nat \<Rightarrow> nat
     \<Rightarrow> real \<Rightarrow> bool \<Rightarrow> string \<Rightarrow> ('n, 'e) RDirichletTree" where
  "RDirichletTree_new G T candidates minDepth0 maxDepth0 a00 vd0 seed =
     (case parse_candidates candidates 0 [] Map.empty of
        (cv, cm) \<Rightarrow>
          \<lparr>tree = DirichletTree_new G T
                    \<lparr>nCandidates = length candidates, minDepth = minDepth0,
                     maxDepth = maxDepth0, a0 = a00, vd = vd0\<rparr> seed,
           candidateVector = cv, candidateMap = cm, nObserved = 0, observedDepths = {}\<rparr>)"

definition getNCandidates :: "('n, 'e) RDirichletTree \<Rightarrow> nat" where
  "getNCandidates s = nCandidates (parameters (tree s))"

text \<open>
  \<^verbatim>\<open>parseBallotList\<close>: every name is looked up in the candidate map, and an unknown
  name stops the call. Nothing else is checked; each ballot gets the count 1.
\<close>

definition unknown_candidate_message :: string where
  "unknown_candidate_message = ''Unknown candidate encountered in ballot!''"

fun parseBallot :: "(string \<rightharpoonup> nat) \<Rightarrow> string list \<Rightarrow> error + IRVBallot" where
  "parseBallot cm [] = Inr []"
| "parseBallot cm (cName # rest) =
     (case cm cName of
        None \<Rightarrow> Inl (InvalidArgument unknown_candidate_message)
      | Some cIndex \<Rightarrow>
          (case parseBallot cm rest of
             Inl e \<Rightarrow> Inl e
           | Inr indexPrefs \<Rightarrow> Inr (cIndex # indexPrefs)))"

fun parseBallotList :: "(string \<rightharpoonup> nat) \<Rightarrow> string list list \<Rightarrow> error + IRVBallotCount list" where
  "parseBallotList cm [] = Inr []"
| "parseBallotList cm (namePrefs # bs) =
     (case parseBallot cm namePrefs of
        Inl e \<Rightarrow> Inl e
      | Inr indexPrefs \<Rightarrow>
          (case parseBallotList cm bs of
             Inl e \<Rightarrow> Inl e
           | Inr out \<Rightarrow> Inr ((indexPrefs, 1) # out)))"

text \<open>\<^verbatim>\<open>RDirichletTree::reset\<close>.\<close>

definition R_reset ::
  "('n, IRVBallotCount, IRVParameters, 'e) NodeType \<Rightarrow> ('n, 'e) RDirichletTree
     \<Rightarrow> ('n, 'e) RDirichletTree" where
  "R_reset T s = s\<lparr>tree := reset T (tree s), nObserved := 0, observedDepths := {}\<rparr>"

text \<open>
  \<^verbatim>\<open>RDirichletTree::update\<close>. The ballots are parsed first, all of them. Then, for
  each ballot count, a warning is issued when the ballot is shorter than
  \<^verbatim>\<open>minDepth\<close> and not empty, \<^verbatim>\<open>nObserved\<close> grows by the count, the tree is
  updated and the depth is recorded. The result is the error, or the warnings issued.
\<close>

definition depth_warning :: string where
  "depth_warning = ''Updating a Dirichlet-tree distribution with a ballot specifying fewer than minDepth preferences.''"

fun update_loop ::
  "('n, IRVBallotCount, IRVParameters, 'e) NodeType \<Rightarrow> nat \<Rightarrow> IRVBallotCount list
     \<Rightarrow> ('n, 'e) RDirichletTree \<Rightarrow> string list \<times> ('n, 'e) RDirichletTree" where
  "update_loop T minDepth0 [] s = ([], s)"
| "update_loop T minDepth0 (bc # bcs) s =
     (let depth = nPreferences (fst bc);
          w = (if depth < minDepth0 \<and> depth > 0 then [depth_warning] else []);
          s1 = s\<lparr>nObserved := nObserved s + snd bc\<rparr>;
          s2 = s1\<lparr>tree := update T bc (int (snd bc)) (tree s1)\<rparr>;
          s3 = s2\<lparr>observedDepths := insert depth (observedDepths s2)\<rparr>
      in case update_loop T minDepth0 bcs s3 of (ws, s4) \<Rightarrow> (w @ ws, s4))"

definition R_update ::
  "('n, IRVBallotCount, IRVParameters, 'e) NodeType \<Rightarrow> string list list
     \<Rightarrow> ('n, 'e) RDirichletTree \<Rightarrow> (error + string list) \<times> ('n, 'e) RDirichletTree" where
  "R_update T ballots s =
     (let minDepth0 = minDepth (parameters (tree s)) in
      case parseBallotList (candidateMap s) ballots of
        Inl e \<Rightarrow> (Inl e, s)
      | Inr bcs \<Rightarrow> (case update_loop T minDepth0 bcs s of (ws, s1) \<Rightarrow> (Inr ws, s1)))"

subsection \<open>Sampling entry points\<close>

text \<open>
  \<^verbatim>\<open>samplePredictive\<close>: the tree's engine is re-seeded, \<^verbatim>\<open>tree->sample(nSamples)\<close>
  draws with it, and every sampled ballot is written \<open>count\<close> times as candidate names.
  \<^verbatim>\<open>candidateVector[cIndex]\<close> is an unchecked read.
\<close>

fun ballot_names :: "string list \<Rightarrow> IRVBallot \<Rightarrow> error + string list" where
  "ballot_names cv [] = Inr []"
| "ballot_names cv (cIndex # rest) =
     (if cIndex < length cv then
        (case ballot_names cv rest of
           Inl e \<Rightarrow> Inl e
         | Inr rBallot \<Rightarrow> Inr (cv ! cIndex # rBallot))
      else Inl (Undefined ''candidateVector read out of range''))"

fun predictive_names :: "string list \<Rightarrow> IRVBallotCount list \<Rightarrow> error + string list list" where
  "predictive_names cv [] = Inr []"
| "predictive_names cv ((b, count) # samples) =
     (if count = 0 then predictive_names cv samples
      else
        (case ballot_names cv b of
           Inl e \<Rightarrow> Inl e
         | Inr rBallot \<Rightarrow>
             (case predictive_names cv samples of
                Inl e \<Rightarrow> Inl e
              | Inr out \<Rightarrow> Inr (replicate count rBallot @ out))))"

definition samplePredictive ::
  "'e mt19937 \<Rightarrow> ('n, IRVBallotCount, IRVParameters, 'e) NodeType \<Rightarrow> nat \<Rightarrow> string
     \<Rightarrow> ('n, 'e) RDirichletTree \<Rightarrow> (error + string list list) \<times> ('n, 'e) RDirichletTree" where
  "samplePredictive G T nSamples seed s =
     (let t1 = setSeed G seed (tree s) in
      case sample T (int nSamples) None t1 of
        (samples, eng, t2) \<Rightarrow> (predictive_names (candidateVector s) samples, s\<lparr>tree := t2\<rparr>))"

text \<open>
  \<^verbatim>\<open>sampleMarginalProbability\<close>: the engine is re-seeded, the ballot's names are looked
  up with \<^verbatim>\<open>candidateMap[name]\<close>, which enters an unknown name into the map with the
  index 0, and \<^verbatim>\<open>tree->marginalProbability(b, nullptr)\<close> is called \<open>nSamples\<close> times.
  The ballot is handed to the tree as an outcome with the count 1, the count the adapter
  gives every ballot it parses.
\<close>

fun lookup_preferences ::
  "(string \<rightharpoonup> nat) \<Rightarrow> string list \<Rightarrow> IRVBallot \<times> (string \<rightharpoonup> nat)" where
  "lookup_preferences cm [] = ([], cm)"
| "lookup_preferences cm (name # rest) =
     (case cm name of
        Some cIndex \<Rightarrow>
          (case lookup_preferences cm rest of (ps, cm1) \<Rightarrow> (cIndex # ps, cm1))
      | None \<Rightarrow>
          (case lookup_preferences (cm(name \<mapsto> 0)) rest of (ps, cm1) \<Rightarrow> (0 # ps, cm1)))"

fun marginal_loop ::
  "('n, 'o, 'p, 'e) NodeType \<Rightarrow> nat \<Rightarrow> 'o \<Rightarrow> ('n, 'o, 'p, 'e) DirichletTree
     \<Rightarrow> real list \<times> ('n, 'o, 'p, 'e) DirichletTree" where
  "marginal_loop T 0 b t = ([], t)"
| "marginal_loop T (Suc k) b t =
     (case marginalProbability T b None t of
        (prob, eng, t1) \<Rightarrow>
          (case marginal_loop T k b t1 of (out, t2) \<Rightarrow> (prob # out, t2)))"

definition sampleMarginalProbability ::
  "'e mt19937 \<Rightarrow> ('n, IRVBallotCount, IRVParameters, 'e) NodeType \<Rightarrow> nat \<Rightarrow> string list \<Rightarrow> string
     \<Rightarrow> ('n, 'e) RDirichletTree \<Rightarrow> real list \<times> ('n, 'e) RDirichletTree" where
  "sampleMarginalProbability G T nSamples ballot seed s =
     (let t1 = setSeed G seed (tree s) in
      case lookup_preferences (candidateMap s) ballot of
        (preferences, cm1) \<Rightarrow>
          (case marginal_loop T nSamples (preferences, 1) t1 of
             (out, t2) \<Rightarrow> (out, s\<lparr>tree := t2, candidateMap := cm1\<rparr>)))"

text \<open>
  \<^verbatim>\<open>samplePosterior\<close>. The social choice function \<^verbatim>\<open>socialChoiceIRV\<close> is an
  argument \<open>irv\<close> of the model: it maps an election, the number of candidates and an
  engine to an elimination order and the stepped engine.

  The batches are dispatched to a thread pool; the model runs them one after the other in
  the order of their indices, and the remainder after them. Each batch seeds an engine of
  its own from its slot of \<open>seeds\<close>, warms it up, asks \<^verbatim>\<open>posteriorSets\<close> for
  \<open>batchSize\<close> elections and scores every election it gets back. User interrupts are
  not modelled.
\<close>

fun draw_seeds :: "'e mt19937 \<Rightarrow> nat \<Rightarrow> 'e \<Rightarrow> 32 word list \<times> 'e" where
  "draw_seeds G 0 e = ([], e)"
| "draw_seeds G (Suc k) e =
     (case generate G e of
        (x, e1) \<Rightarrow> (case draw_seeds G k e1 of (xs, e2) \<Rightarrow> (x # xs, e2)))"

fun score_elections ::
  "('o list \<Rightarrow> nat \<Rightarrow> 'e \<Rightarrow> nat list \<times> 'e) \<Rightarrow> nat \<Rightarrow> 'o list list \<Rightarrow> 'e \<Rightarrow> nat list list \<times> 'e" where
  "score_elections irv nCand [] e = ([], e)"
| "score_elections irv nCand (el # els) e =
     (case irv el nCand e of
        (order, e1) \<Rightarrow>
          (case score_elections irv nCand els e1 of (rs, e2) \<Rightarrow> (order # rs, e2)))"

definition getBatchResult ::
  "'e mt19937 \<Rightarrow> ('n, 'o, 'p, 'e) NodeType \<Rightarrow> ('o list \<Rightarrow> nat \<Rightarrow> 'e \<Rightarrow> nat list \<times> 'e)
     \<Rightarrow> 32 word list \<Rightarrow> nat \<Rightarrow> nat \<Rightarrow> nat \<Rightarrow> nat \<Rightarrow> ('n, 'o, 'p, 'e) DirichletTree
     \<Rightarrow> nat list list \<times> ('n, 'o, 'p, 'e) DirichletTree" where
  "getBatchResult G T irv seeds nBallots nCand i batchSize t =
     (let e = discard G (state_size * 100) (seed_value G (seeds ! i)) in
      case posteriorSets T (int batchSize) (int nBallots) (Some e) t of
        (elections, eng, t1) \<Rightarrow>
          (fst (score_elections irv nCand elections (case eng of None \<Rightarrow> e | Some e1 \<Rightarrow> e1)),
           t1))"

fun run_batches ::
  "'e mt19937 \<Rightarrow> ('n, 'o, 'p, 'e) NodeType \<Rightarrow> ('o list \<Rightarrow> nat \<Rightarrow> 'e \<Rightarrow> nat list \<times> 'e)
     \<Rightarrow> 32 word list \<Rightarrow> nat \<Rightarrow> nat \<Rightarrow> nat \<Rightarrow> nat list \<Rightarrow> ('n, 'o, 'p, 'e) DirichletTree
     \<Rightarrow> nat list list list \<times> ('n, 'o, 'p, 'e) DirichletTree" where
  "run_batches G T irv seeds nBallots nCand batchSize [] t = ([], t)"
| "run_batches G T irv seeds nBallots nCand batchSize (i # rest) t =
     (case getBatchResult G T irv seeds nBallots nCand i batchSize t of
        (r, t1) \<Rightarrow>
          (case run_batches G T irv seeds nBallots nCand batchSize rest t1 of
             (rs, t2) \<Rightarrow> (r # rs, t2)))"

text \<open>
  The aggregation. The inner loop runs \<open>i\<close> from \<^verbatim>\<open>nCandidates - nWinners\<close> up to
  \<^verbatim>\<open>nCandidates\<close> in \<^verbatim>\<open>size_t\<close>: when \<open>nWinners\<close> exceeds \<open>nCandidates\<close> the
  difference wraps around to a value above \<open>nCandidates\<close> and the loop has no round.
  Both \<^verbatim>\<open>elimination_order_idx[i]\<close> and \<^verbatim>\<open>out[...]\<close> are unchecked reads.
\<close>

definition winner_range :: "nat \<Rightarrow> nat \<Rightarrow> nat list" where
  "winner_range nCand nWinners =
     (if nWinners \<le> nCand then [nCand - nWinners ..< nCand] else [])"

fun count_winners :: "real list \<Rightarrow> nat list \<Rightarrow> nat list \<Rightarrow> error + real list" where
  "count_winners out order [] = Inr out"
| "count_winners out order (i # rest) =
     (if i < length order \<and> order ! i < length out
      then count_winners (out[order ! i := out ! (order ! i) + 1]) order rest
      else Inl (Undefined ''elimination order read out of range''))"

fun aggregate :: "real list \<Rightarrow> nat list list \<Rightarrow> nat list \<Rightarrow> error + real list" where
  "aggregate out [] idx = Inr out"
| "aggregate out (order # rest) idx =
     (case count_winners out order idx of
        Inl e \<Rightarrow> Inl e
      | Inr out1 \<Rightarrow> aggregate out1 rest idx)"

definition nBallots_message :: string where
  "nBallots_message =
     ''nBallots must be larger than the number of ballots observed to obtain the posterior.''"

definition samplePosterior ::
  "'e mt19937 \<Rightarrow> ('n, IRVBallotCount, IRVParameters, 'e) NodeType
     \<Rightarrow> (IRVBallotCount list \<Rightarrow> nat \<Rightarrow> 'e \<Rightarrow> nat list \<times> 'e)
     \<Rightarrow> nat \<Rightarrow> nat \<Rightarrow> nat \<Rightarrow> nat \<Rightarrow> string
     \<Rightarrow> ('n, 'e) RDirichletTree \<Rightarrow> (error + real list) \<times> ('n, 'e) RDirichletTree" where
  "samplePosterior G T irv nElections nBallots nWinners nBatches seed s =
     (if nBallots < nObserved s then
        (Inl (InvalidArgument nBallots_message), s)
      else
        (let t1 = setSeed G seed (tree s);
             nCand = nCandidates (parameters t1)
         in case draw_seeds G (Suc nBatches) (engine t1) of
           (seeds, e1) \<Rightarrow>
             (let t2 = t1\<lparr>engine := discard G (state_size * 100) e1\<rparr> in
              if 1 < nElections \<and> nBatches = 0 then
                (Inl (Undefined ''division by zero''), s\<lparr>tree := t2\<rparr>)
              else
                (let batchSize = (if nElections \<le> 1 then 0 else nElections div nBatches);
                     batchRemainder =
                       (if nElections \<le> 1 then nElections else nElections mod nBatches)
                 in case run_batches G T irv seeds nBallots nCand batchSize [0 ..< nBatches] t2 of
                   (rs, t3) \<Rightarrow>
                     (case (if batchRemainder > 0
                            then getBatchResult G T irv seeds nBallots nCand nBatches
                                   batchRemainder t3
                            else ([], t3)) of
                        (r, t4) \<Rightarrow>
                          (case aggregate (replicate nCand 0) (concat (rs @ [r]))
                                  (winner_range nCand nWinners) of
                             Inl e \<Rightarrow> (Inl e, s\<lparr>tree := t4\<rparr>)
                           | Inr out \<Rightarrow>
                               (Inr (map (\<lambda>x. x / real nElections) out),
                                s\<lparr>tree := t4\<rparr>)))))))"

section \<open>The IRV social choice function\<close>

text \<open>
  Modelled from the spec: \<^verbatim>\<open>socialChoiceIRV\<close>, whose file (\<^verbatim>\<open>irv_ballot.hpp\<close>) is
  not among the sources. Specification, 4.5: all candidates stand at first. While more
  than one candidate stands, every standing candidate is given the tally of the ballots
  whose first preference still standing is that candidate (a ballot with no standing
  preference left is exhausted and counts for nobody); a candidate with the minimum tally
  is eliminated, the only one if there is one, otherwise one chosen among the tied with
  the engine; the eliminated candidate is appended to the elimination order. The last
  candidate standing is appended as the winner.

  The choice among \<open>k\<close> tied candidates is one draw of the engine, reduced modulo \<open>k\<close>.
\<close>

fun first_standing :: "nat list \<Rightarrow> IRVBallot \<Rightarrow> nat option" where
  "first_standing standing [] = None"
| "first_standing standing (p # ps) =
     (if p \<in> set standing then Some p else first_standing standing ps)"

definition tally :: "IRVBallotCount list \<Rightarrow> nat list \<Rightarrow> nat \<Rightarrow> nat" where
  "tally ballots standing cand =
     sum_list (map snd (filter (\<lambda>bc. first_standing standing (fst bc) = Some cand) ballots))"

definition pick_tied :: "'e mt19937 \<Rightarrow> nat list \<Rightarrow> 'e \<Rightarrow> nat \<times> 'e" where
  "pick_tied G tied e =
     (case generate G e of (x, e1) \<Rightarrow> (tied ! (unat x mod length tied), e1))"

definition choose_loser ::
  "'e mt19937 \<Rightarrow> IRVBallotCount list \<Rightarrow> nat list \<Rightarrow> 'e \<Rightarrow> nat \<times> 'e" where
  "choose_loser G ballots standing e =
     (let m = Min (set (map (tally ballots standing) standing));
          tied = filter (\<lambda>cand. tally ballots standing cand = m) standing
      in if length tied = 1 then (hd tied, e) else pick_tied G tied e)"

lemma choose_loser_standing:
  assumes "standing \<noteq> []"
  shows "fst (choose_loser G ballots standing e) \<in> set standing"
proof -
  define tied where
    "tied = filter (\<lambda>cand. tally ballots standing cand =
                      Min (set (map (tally ballots standing) standing))) standing"
  have c: "choose_loser G ballots standing e =
             (if length tied = 1 then (hd tied, e) else pick_tied G tied e)"
    unfolding choose_loser_def Let_def tied_def by (rule refl)
  have "Min (set (map (tally ballots standing) standing))
          \<in> set (map (tally ballots standing) standing)"
    by (rule Min_in) (use assms in simp_all)
  then obtain cand where "cand \<in> set standing"
    and "tally ballots standing cand = Min (set (map (tally ballots standing) standing))"
    by auto
  then have "cand \<in> set tied" unfolding tied_def by simp
  then have ne: "tied \<noteq> []" by auto
  have sub: "set tied \<subseteq> set standing" unfolding tied_def by auto
  from ne have "fst (pick_tied G tied e) \<in> set tied"
    by (simp add: pick_tied_def split: prod.split)
  moreover from ne have "hd tied \<in> set tied" by simp
  ultimately show ?thesis using sub unfolding c by (auto split: if_splits)
qed

function irv_loop ::
  "'e mt19937 \<Rightarrow> IRVBallotCount list \<Rightarrow> nat list \<Rightarrow> nat list \<Rightarrow> 'e \<Rightarrow> nat list \<times> 'e" where
  "irv_loop G ballots standing order e =
     (if length standing \<le> 1 then (order @ standing, e)
      else
        (case choose_loser G ballots standing e of
           (loser, e1) \<Rightarrow> irv_loop G ballots (remove1 loser standing) (order @ [loser]) e1))"
  by pat_completeness auto
termination
proof (relation "measure (\<lambda>(G, ballots, standing, order, e). length standing)")
  show "wf (measure (\<lambda>(G, ballots, standing, order, e). length standing))" by simp
next
  fix G :: "'e mt19937" and ballots standing order e loser e1
  assume "\<not> length standing \<le> 1" and "(loser, e1) = choose_loser G ballots standing e"
  then have "standing \<noteq> []" and "loser = fst (choose_loser G ballots standing e)"
    by (auto simp: fst_def split: prod.split)
  then have "loser \<in> set standing" using choose_loser_standing by metis
  then have "length (remove1 loser standing) < length standing"
    using length_pos_if_in_set [of loser standing] by (simp add: length_remove1)
  then show "((G, ballots, remove1 loser standing, order @ [loser], e1),
              (G, ballots, standing, order, e))
             \<in> measure (\<lambda>(G, ballots, standing, order, e). length standing)"
    by simp
qed

declare irv_loop.simps [simp del]

definition socialChoiceIRV ::
  "'e mt19937 \<Rightarrow> IRVBallotCount list \<Rightarrow> nat \<Rightarrow> 'e \<Rightarrow> nat list \<times> 'e" where
  "socialChoiceIRV G ballots nCand e = irv_loop G ballots [0 ..< nCand] [] e"

text \<open>
  \<^verbatim>\<open>RSocialChoiceIRV\<close> (RcppIRV.cpp). Candidates are numbered in the order in which
  their names first appear; empty ballots are skipped. The two checks follow, then the
  engine is built from the seed and warmed up, and the elimination order that
  \<^verbatim>\<open>socialChoiceIRV\<close> returns is split into the names of the eliminated and the names of
  the winners. \<^verbatim>\<open>cNames[elimination_order_idx[i]]\<close> is an unchecked read twice over.
\<close>

fun index_ballot ::
  "string list \<Rightarrow> (string \<rightharpoonup> nat) \<Rightarrow> string list \<Rightarrow> IRVBallot \<times> (string \<rightharpoonup> nat) \<times> string list" where
  "index_ballot [] c2Index cNames = ([], c2Index, cNames)"
| "index_ballot (cName # rest) c2Index cNames =
     (case c2Index cName of
        None \<Rightarrow>
          (case index_ballot rest (c2Index(cName \<mapsto> length cNames)) (cNames @ [cName]) of
             (bIndices, c2, cn) \<Rightarrow> (length cNames # bIndices, c2, cn))
      | Some i \<Rightarrow>
          (case index_ballot rest c2Index cNames of
             (bIndices, c2, cn) \<Rightarrow> (i # bIndices, c2, cn)))"

fun index_ballots ::
  "string list list \<Rightarrow> (string \<rightharpoonup> nat) \<Rightarrow> string list
     \<Rightarrow> IRVBallotCount list \<times> (string \<rightharpoonup> nat) \<times> string list" where
  "index_ballots [] c2Index cNames = ([], c2Index, cNames)"
| "index_ballots (bNames # bs) c2Index cNames =
     (if bNames = [] then index_ballots bs c2Index cNames
      else
        (case index_ballot bNames c2Index cNames of
           (bIndices, c2, cn) \<Rightarrow>
             (case index_ballots bs c2 cn of
                (scInput, c2a, cna) \<Rightarrow> ((bIndices, 1) # scInput, c2a, cna))))"

fun names_at :: "string list \<Rightarrow> nat list \<Rightarrow> nat list \<Rightarrow> error + string list" where
  "names_at cNames idx [] = Inr []"
| "names_at cNames idx (i # rest) =
     (if i < length idx \<and> idx ! i < length cNames then
        (case names_at cNames idx rest of
           Inl e \<Rightarrow> Inl e
         | Inr out \<Rightarrow> Inr (cNames ! (idx ! i) # out))
      else Inl (Undefined ''elimination order read out of range''))"

definition nWinners_message :: string where
  "nWinners_message = ''nWinners must be >= 1 and <= the number of candidates.''"

definition no_ballots_message :: string where
  "no_ballots_message = ''No valid ballots for the IRV social choice function.''"

definition RSocialChoiceIRV ::
  "'e mt19937 \<Rightarrow> (IRVBallotCount list \<Rightarrow> nat \<Rightarrow> 'e \<Rightarrow> nat list \<times> 'e) \<Rightarrow> string list list \<Rightarrow> nat
     \<Rightarrow> string \<Rightarrow> error + string list \<times> string list" where
  "RSocialChoiceIRV G irv bs nWinners seed =
     (case index_ballots bs Map.empty [] of
        (scInput, c2Index, cNames) \<Rightarrow>
          if nWinners < 1 \<or> nWinners \<ge> length cNames then
            Inl (InvalidArgument nWinners_message)
          else if length scInput = 0 then
            Inl (InvalidArgument no_ballots_message)
          else
            (let e = discard G (state_size * 100) (seed_seq G seed) in
             case irv scInput (length cNames) e of
               (elimination_order_idx, e1) \<Rightarrow>
                 (case names_at cNames elimination_order_idx
                         [0 ..< length cNames - nWinners] of
                    Inl err \<Rightarrow> Inl err
                  | Inr elimination_order \<Rightarrow>
                      (case names_at cNames elimination_order_idx
                              [length cNames - nWinners ..< length cNames] of
                         Inl err \<Rightarrow> Inl err
                       | Inr winners \<Rightarrow> Inr (elimination_order, winners)))))"

text \<open>
  An elimination order over \<open>n\<close> candidates that the aggregation can read: \<open>n\<close>
  entries, each a candidate index.
\<close>

definition order_ok :: "nat \<Rightarrow> nat list \<Rightarrow> bool" where
  "order_ok n order = (length order = n \<and> list_all (\<lambda>x. x < n) order)"

section \<open>The tree node\<close>

text \<open>
  Modelled from the spec: the node type \<^verbatim>\<open>IRVNode\<close>, whose files
  (\<^verbatim>\<open>tree_node.hpp\<close>, \<^verbatim>\<open>irv_node.hpp\<close>) are not among the sources. A node holds a
  count for its halt branch, a count for every candidate branch, and its materialised
  children. A node that has not been materialised is equivalent to a fresh one: all counts
  zero, no child.

  Update along a path (specification, 4.3.1), for a ballot \<open>o\<close> of length \<open>k\<close> at a node
  of depth \<open>d\<close>: if \<open>k = d\<close>, the halt count grows by \<open>count\<close>; otherwise, with
  \<open>b = o[d]\<close>, the count of branch \<open>b\<close> grows by \<open>count\<close>, child \<open>b\<close> is
  materialised if absent, and the update goes on in that child. The function below is
  given the part of the ballot from position \<open>d\<close> on. Empty ballots are skipped at the
  root. The default path is the empty prefix.
\<close>

datatype IRVNode =
  IRVNode (c_halt: int) (c_branch: "nat \<Rightarrow> int") (children: "nat \<Rightarrow> IRVNode option")

definition fresh_node :: IRVNode where
  "fresh_node = IRVNode 0 (\<lambda>b. 0) (\<lambda>b. None)"

fun irv_node_update :: "IRVNode \<Rightarrow> IRVBallot \<Rightarrow> int \<Rightarrow> IRVNode" where
  "irv_node_update nd [] count = IRVNode (c_halt nd + count) (c_branch nd) (children nd)"
| "irv_node_update nd (b # rest) count =
     IRVNode (c_halt nd) ((c_branch nd)(b := c_branch nd b + count))
       ((children nd)(b \<mapsto>
          irv_node_update (case children nd b of None \<Rightarrow> fresh_node | Some ch \<Rightarrow> ch)
            rest count))"

definition irv_root_update ::
  "IRVParameters \<Rightarrow> IRVNode \<Rightarrow> IRVBallotCount \<Rightarrow> nat list \<Rightarrow> int \<Rightarrow> IRVNode" where
  "irv_root_update p nd outc path count =
     (if fst outc = [] then nd
      else irv_node_update nd (drop (length path) (fst outc)) count)"

text \<open>
  The node type of the adapter's tree. Sampling and the marginal probability draw from
  Dirichlet and multinomial distributions in floating point; they stay arguments.
\<close>

definition IRVNode_type ::
  "(IRVParameters \<Rightarrow> IRVNode \<Rightarrow> int \<Rightarrow> nat list \<Rightarrow> 'e \<Rightarrow> IRVBallotCount list \<times> IRVNode \<times> 'e)
     \<Rightarrow> (IRVParameters \<Rightarrow> IRVNode \<Rightarrow> IRVBallotCount \<Rightarrow> nat list \<Rightarrow> 'e \<Rightarrow> real \<times> IRVNode \<times> 'e)
     \<Rightarrow> (IRVNode, IRVBallotCount, IRVParameters, 'e) NodeType" where
  "IRVNode_type smp mp =
     \<lparr>new_node = (\<lambda>depth p. fresh_node), defaultPath = (\<lambda>p. []),
      node_update = irv_root_update, node_sample = smp, node_marginalProbability = mp\<rparr>"

section \<open>Concrete instances\<close>

text \<open>
  To run the model on concrete inputs: an engine whose state is a counter (seeded with the
  length of the seed string, or with the value of the seed word), a sampler that returns no
  ballot and a marginal probability that is constantly zero, neither of which steps the
  engine, and an adapter state over two candidates in which one ballot has been observed.
\<close>

definition counter_engine :: "nat mt19937" where
  "counter_engine =
     \<lparr>seed_seq = length, seed_value = unat, generate = (\<lambda>e. (of_nat e, Suc e))\<rparr>"

definition plain_node :: "(IRVNode, IRVBallotCount, IRVParameters, nat) NodeType" where
  "plain_node = IRVNode_type (\<lambda>p nd n path e. ([], nd, e)) (\<lambda>p nd outc path e. (0, nd, e))"

definition two_candidates :: "(IRVNode, nat) RDirichletTree" where
  "two_candidates = RDirichletTree_new counter_engine plain_node [''A'', ''B''] 0 2 1 False ''12345''"

definition one_observed :: "(IRVNode, nat) RDirichletTree" where
  "one_observed = snd (R_update plain_node [[''A'']] two_candidates)"

text \<open>
  The adapter state \<open>s\<close> with the tree's engine in the state \<open>e\<close>: with two engine
  states, two states of the adapter that differ in nothing but what was drawn before.
\<close>

definition with_engine :: "'e \<Rightarrow> ('n, 'e) RDirichletTree \<Rightarrow> ('n, 'e) RDirichletTree" where
  "with_engine e s = s\<lparr>tree := (tree s)\<lparr>engine := e\<rparr>\<rparr>"

section \<open>Properties of the Dirichlet tree\<close>

lemma observed_sample: "observed (snd (snd (sample T n eo t))) = observed t"
  by (simp add: sample_def Let_def split: option.split prod.split)

lemma posteriorSets_loop_length: "length (fst (posteriorSets_loop T i k eo t)) = i"
proof (induction i arbitrary: eo t)
  case 0
  show ?case by simp
next
  case (Suc i)
  obtain new e1 t1 where s: "sample T k eo t = (new, e1, t1)"
    by (cases "sample T k eo t") auto
  obtain out e2 t2 where r: "posteriorSets_loop T i k e1 t1 = (out, e2, t2)"
    by (cases "posteriorSets_loop T i k e1 t1") auto
  from Suc [of e1 t1] r have "length out = i" by simp
  with s r show ?case by simp
qed

text \<open>
  Claim C1. \<^verbatim>\<open>posteriorSets(nSets, N)\<close> is documented to return \<open>nSets\<close> complete sets.
  The code returns as many sets as the loop has rounds, which is \<open>N\<close>: asked for one set
  of two outcomes, it returns two sets, whatever the tree, the node type and the engine.
\<close>

theorem posteriorSets_one_set_of_two: "length (fst (posteriorSets T 1 2 eo t)) = 2"
  by (simp add: posteriorSets_def posteriorSets_loop_length)

section \<open>Properties of the adapter\<close>

subsection \<open>The concrete instances, evaluated\<close>

lemma discard_counter: "discard counter_engine k e = e + k"
  by (induction k arbitrary: e) (simp_all add: counter_engine_def)

lemma seed_seq_counter: "seed_seq counter_engine str = length str"
  by (simp add: counter_engine_def)

lemma two_candidates_eq:
  "two_candidates =
     \<lparr>tree = \<lparr>root = fresh_node,
              parameters = \<lparr>nCandidates = 2, minDepth = 0, maxDepth = 2, a0 = 1, vd = False\<rparr>,
              observed = [], engine = 1005\<rparr>,
      candidateVector = [''A'', ''B''], candidateMap = [''A'' \<mapsto> 0, ''B'' \<mapsto> 1],
      nObserved = 0, observedDepths = {}\<rparr>"
  by (simp add: two_candidates_def RDirichletTree_new_def DirichletTree_new_def discard_counter
      plain_node_def IRVNode_type_def seed_seq_counter)

lemma nObserved_one_observed: "nObserved one_observed = 1"
  by (simp add: one_observed_def R_update_def two_candidates_eq Let_def nPreferences_def)

lemma observed_one_observed: "observed (tree one_observed) = [([0], 1)]"
  by (simp add: one_observed_def R_update_def two_candidates_eq Let_def nPreferences_def update_def)

subsection \<open>Reset\<close>

text \<open>
  Claim C2. \<^verbatim>\<open>reset\<close> replaces the root and keeps the parameters, but it does not
  touch the observed list. An outcome observed before the tree's \<^verbatim>\<open>reset\<close> is still
  the content of the observed list afterwards; and the adapter's \<^verbatim>\<open>reset\<close> sets its
  count of observed ballots to zero and empties the observed depths over an observed list
  that is what it was.
\<close>

theorem reset_keeps_observed:
  "observed (reset T (update T outc 1 (DirichletTree_new G T p seed))) = [outc] \<and>
   observed (tree (R_reset T1 s)) = observed (tree s) \<and>
   parameters (tree (R_reset T1 s)) = parameters (tree s) \<and>
   nObserved (R_reset T1 s) = 0 \<and> observedDepths (R_reset T1 s) = {}"
  by (simp add: reset_def update_def DirichletTree_new_def R_reset_def Let_def)

subsection \<open>The guard of the posterior driver\<close>

text \<open>
  Claim C5. When \<open>nBallots\<close> is below the adapter's count of observed ballots
  \<open>nObserved\<close>, \<^verbatim>\<open>samplePosterior\<close> stops with the InvalidArgument error before
  anything else happens: the whole state (root, counts, observed list, engine, parameters,
  and the adapter's own fields) is the state before the call.
\<close>

theorem samplePosterior_too_few_ballots:
  "nBallots < nObserved s \<Longrightarrow>
   samplePosterior G T irv nElections nBallots nWinners nBatches seed s =
     (Inl (InvalidArgument nBallots_message), s)"
  by (simp add: samplePosterior_def)

theorem samplePosterior_too_few_ballots_witness:
  "0 < nObserved one_observed \<and>
   samplePosterior counter_engine plain_node (\<lambda>el n e. ([], e)) 10 0 1 2 ''seed'' one_observed =
     (Inl (InvalidArgument nBallots_message), one_observed)"
proof -
  have h: "0 < nObserved one_observed" by (simp add: nObserved_one_observed)
  from samplePosterior_too_few_ballots [OF h] h show ?thesis by blast
qed

subsection \<open>Validation of ballots in update\<close>

lemma parseBallot_unknown_elem:
  "cName \<in> set b \<Longrightarrow> cm cName = None \<Longrightarrow>
   parseBallot cm b = Inl (InvalidArgument unknown_candidate_message)"
proof (induction b)
  case Nil
  then show ?case by simp
next
  case (Cons x b)
  show ?case
  proof (cases "cm x")
    case None
    then show ?thesis by simp
  next
    case (Some i)
    with Cons.prems have "cName \<in> set b" by auto
    with Cons.IH Cons.prems Some show ?thesis by simp
  qed
qed

lemma parseBallot_unknown:
  "(\<exists>cName\<in>set b. cm cName = None) \<Longrightarrow>
   parseBallot cm b = Inl (InvalidArgument unknown_candidate_message)"
  using parseBallot_unknown_elem by blast

lemma parseBallot_known:
  "\<not> (\<exists>cName\<in>set b. cm cName = None) \<Longrightarrow> \<exists>ps. parseBallot cm b = Inr ps"
proof (induction b)
  case Nil
  then show ?case by simp
next
  case (Cons x b)
  then obtain i where i: "cm x = Some i" by auto
  from Cons obtain ps where "parseBallot cm b = Inr ps" by auto
  with i show ?case by simp
qed

lemma parseBallotList_unknown:
  "(\<exists>b\<in>set bs. \<exists>cName\<in>set b. cm cName = None) \<Longrightarrow>
   parseBallotList cm bs = Inl (InvalidArgument unknown_candidate_message)"
proof (induction bs)
  case Nil
  then show ?case by simp
next
  case (Cons b bs)
  show ?case
  proof (cases "\<exists>cName\<in>set b. cm cName = None")
    case True
    then show ?thesis by (simp add: parseBallot_unknown)
  next
    case False
    then obtain ps where ps: "parseBallot cm b = Inr ps" using parseBallot_known by blast
    from False Cons.prems have "\<exists>b\<in>set bs. \<exists>cName\<in>set b. cm cName = None" by auto
    with Cons.IH ps show ?thesis by simp
  qed
qed

lemma parseBallotList_known:
  "\<not> (\<exists>b\<in>set bs. \<exists>cName\<in>set b. cm cName = None) \<Longrightarrow> \<exists>bcs. parseBallotList cm bs = Inr bcs"
proof (induction bs)
  case Nil
  then show ?case by simp
next
  case (Cons b bs)
  then obtain ps where ps: "parseBallot cm b = Inr ps" using parseBallot_known [of b cm] by auto
  from Cons obtain bcs where "parseBallotList cm bs = Inr bcs" by auto
  with ps show ?case by simp
qed

text \<open>
  Claim C6, as amended. \<^verbatim>\<open>update\<close> fails, with the InvalidArgument error and with
  the state unchanged, exactly when some ballot of the call contains a name that is not in
  the candidate map. Whether a ballot names a candidate twice is not checked.
\<close>

theorem R_update_rejects_unknown_only:
  "if (\<exists>b\<in>set ballots. \<exists>cName\<in>set b. candidateMap s cName = None)
   then R_update T ballots s = (Inl (InvalidArgument unknown_candidate_message), s)
   else (\<exists>ws. fst (R_update T ballots s) = Inr ws)"
proof (cases "\<exists>b\<in>set ballots. \<exists>cName\<in>set b. candidateMap s cName = None")
  case True
  then show ?thesis by (simp add: R_update_def parseBallotList_unknown)
next
  case False
  then obtain bcs where "parseBallotList (candidateMap s) ballots = Inr bcs"
    using parseBallotList_known by blast
  with False show ?thesis by (simp add: R_update_def split: prod.split)
qed

theorem R_update_rejects_unknown_only_witness:
  "R_update plain_node [[''A'', ''Z'']] two_candidates =
     (Inl (InvalidArgument unknown_candidate_message), two_candidates)"
  using R_update_rejects_unknown_only [of "[[''A'', ''Z'']]" two_candidates plain_node]
  by (simp add: two_candidates_eq)

text \<open>
  Claim C6, counterexample. Over the candidates A and B, the ballot (A, A) is accepted:
  the call returns without error and without warning, \<open>nObserved\<close> is 1 and the ballot
  \<open>(0, 0)\<close> is in the observed list.
\<close>

theorem R_update_duplicate_accepted:
  "fst (R_update plain_node [[''A'', ''A'']] two_candidates) = Inr [] \<and>
   nObserved (snd (R_update plain_node [[''A'', ''A'']] two_candidates)) = 1 \<and>
   observed (tree (snd (R_update plain_node [[''A'', ''A'']] two_candidates))) = [([0, 0], 1)]"
  by (simp add: R_update_def two_candidates_eq Let_def nPreferences_def update_def)

subsection \<open>Updates with an empty ballot, and updates with a count\<close>

text \<open>
  Claim C7, counterexample. On the fresh tree over two candidates, \<^verbatim>\<open>update\<close> with the
  empty ballot leaves the empty ballot in the observed list.
\<close>

theorem update_empty_ballot_appended:
  "observed (update plain_node ([], 1) 1 (tree two_candidates)) = [([], 1)]"
  by (simp add: update_def two_candidates_eq Let_def)

text \<open>
  Claim C7, as amended. \<^verbatim>\<open>update\<close> with an empty ballot appends the ballot to the
  observed list and changes nothing else: the root with its counts and children, the
  parameters and the engine are as before.
\<close>

theorem update_empty_ballot:
  "update (IRVNode_type smp mp) ([], k) count t = t\<lparr>observed := observed t @ [([], k)]\<rparr>"
  by (simp add: update_def IRVNode_type_def irv_root_update_def Let_def)




subsection \<open>Re-seeding in the sampling entry points\<close>

lemma setSeed_with_engine:
  "setSeed G seed (tree (with_engine e s)) = setSeed G seed (tree s)"
  by (simp add: setSeed_def with_engine_def)

lemma with_engine_fields:
  "candidateVector (with_engine e s) = candidateVector s"
  "candidateMap (with_engine e s) = candidateMap s"
  "nObserved (with_engine e s) = nObserved s"
  "(with_engine e s)\<lparr>tree := t\<rparr> = s\<lparr>tree := t\<rparr>"
  "(with_engine e s)\<lparr>tree := t, candidateMap := cm\<rparr> = s\<lparr>tree := t, candidateMap := cm\<rparr>"
  by (simp_all add: with_engine_def)

lemma samplePredictive_with_engine:
  "samplePredictive G T nSamples seed (with_engine e s) = samplePredictive G T nSamples seed s"
  by (simp add: samplePredictive_def setSeed_with_engine with_engine_fields)

lemma sampleMarginalProbability_with_engine:
  "sampleMarginalProbability G T nSamples ballot seed (with_engine e s) =
   sampleMarginalProbability G T nSamples ballot seed s"
  by (simp add: sampleMarginalProbability_def setSeed_with_engine with_engine_fields)

lemma samplePosterior_with_engine:
  "nObserved s \<le> nBallots \<Longrightarrow>
   samplePosterior G T irv nElections nBallots nWinners nBatches seed (with_engine e s) =
   samplePosterior G T irv nElections nBallots nWinners nBatches seed s"
  by (simp add: samplePosterior_def setSeed_with_engine with_engine_fields
      cong: prod.case_cong sum.case_cong if_cong)

text \<open>
  Claim C10, as amended. \<^verbatim>\<open>samplePredictive\<close> and \<^verbatim>\<open>sampleMarginalProbability\<close>
  begin by re-seeding the tree's engine from the seed string, and \<^verbatim>\<open>samplePosterior\<close>
  does so once its guard \<open>nBallots \<ge> nObserved\<close> has passed. So, from two states that
  differ only in the state of the engine, and with equal arguments, each of the three
  returns the same result and ends in the same state, engine included; for
  \<^verbatim>\<open>samplePosterior\<close> this holds for the calls that pass the guard.
\<close>

theorem sampling_reseeds:
  "samplePredictive G T nSamples seed (with_engine e1 s) =
     samplePredictive G T nSamples seed (with_engine e2 s) \<and>
   sampleMarginalProbability G T nSamples ballot seed (with_engine e1 s) =
     sampleMarginalProbability G T nSamples ballot seed (with_engine e2 s) \<and>
   (nObserved s \<le> nBallots \<longrightarrow>
     samplePosterior G T irv nElections nBallots nWinners nBatches seed (with_engine e1 s) =
     samplePosterior G T irv nElections nBallots nWinners nBatches seed (with_engine e2 s))"
  by (simp add: samplePredictive_with_engine sampleMarginalProbability_with_engine
      samplePosterior_with_engine)

theorem sampling_reseeds_witness:
  "nObserved one_observed \<le> 1 \<and>
   samplePredictive counter_engine plain_node 3 ''seed'' (with_engine 0 one_observed) =
     samplePredictive counter_engine plain_node 3 ''seed'' (with_engine 1 one_observed) \<and>
   sampleMarginalProbability counter_engine plain_node 3 [''A''] ''seed'' (with_engine 0 one_observed) =
     sampleMarginalProbability counter_engine plain_node 3 [''A''] ''seed'' (with_engine 1 one_observed) \<and>
   samplePosterior counter_engine plain_node (\<lambda>el n e. ([], e)) 2 1 1 1 ''seed''
       (with_engine 0 one_observed) =
     samplePosterior counter_engine plain_node (\<lambda>el n e. ([], e)) 2 1 1 1 ''seed''
       (with_engine 1 one_observed)"
proof -
  have h: "nObserved one_observed \<le> 1" by (simp add: nObserved_one_observed)
  from sampling_reseeds [of counter_engine plain_node 3 "''seed''" 0 one_observed 1 "[''A'']" 1
      "\<lambda>el n e. ([], e)" 2 1 1] h
  show ?thesis by blast
qed

lemma engine_after_samplePredictive:
  "engine (tree (snd (samplePredictive counter_engine plain_node 0 seed one_observed))) =
     length seed + 1000"
  by (simp add: samplePredictive_def setSeed_def sample_def plain_node_def IRVNode_type_def
      discard_counter seed_seq_counter Let_def)

lemma nObserved_after_samplePredictive:
  "nObserved (snd (samplePredictive G T n seed s)) = nObserved s"
  by (simp add: samplePredictive_def Let_def split: prod.split)

text \<open>
  Claim C10, counterexample. One ballot is observed, and the engine has been used by an
  earlier \<^verbatim>\<open>samplePredictive\<close>, with the seed \<open>a\<close> in one history and \<open>ab\<close> in the
  other. The same call of \<^verbatim>\<open>samplePosterior\<close> with \<open>nBallots = 0\<close> then fails in its
  guard, before any re-seeding, and leaves the engine in the state the history gave it:
  a different state in the two histories.
\<close>

theorem samplePosterior_failure_keeps_engine:
  "engine (tree (snd (samplePosterior counter_engine plain_node (\<lambda>el n e. ([], e)) 1 0 1 1 ''seed''
      (snd (samplePredictive counter_engine plain_node 0 ''a'' one_observed))))) = 1001 \<and>
   engine (tree (snd (samplePosterior counter_engine plain_node (\<lambda>el n e. ([], e)) 1 0 1 1 ''seed''
      (snd (samplePredictive counter_engine plain_node 0 ''ab'' one_observed))))) = 1002"
  by (simp add: samplePosterior_def nObserved_after_samplePredictive nObserved_one_observed
      engine_after_samplePredictive)

section \<open>Properties of the IRV social choice function\<close>

text \<open>
  The loop keeps the candidates: what it returns is made of the candidates eliminated so
  far and of those still standing, each once.
\<close>

lemma irv_loop_perm:
  "distinct (order @ standing) \<Longrightarrow>
   distinct (fst (irv_loop G ballots standing order e)) \<and>
   set (fst (irv_loop G ballots standing order e)) = set order \<union> set standing \<and>
   length (fst (irv_loop G ballots standing order e)) = length order + length standing"
proof (induction G ballots standing order e rule: irv_loop.induct)
  case (1 G ballots standing order e)
  show ?case
  proof (cases "length standing \<le> 1")
    case True
    then have "irv_loop G ballots standing order e = (order @ standing, e)"
      by (subst irv_loop.simps) simp
    with "1.prems" show ?thesis by simp
  next
    case False
    obtain loser e1 where cl: "choose_loser G ballots standing e = (loser, e1)"
      by (cases "choose_loser G ballots standing e") auto
    from False have "standing \<noteq> []" by auto
    with choose_loser_standing [of standing G ballots e] cl
    have mem: "loser \<in> set standing" by simp
    from "1.prems" mem have d: "distinct ((order @ [loser]) @ remove1 loser standing)"
      by auto
    have step: "irv_loop G ballots standing order e =
                  irv_loop G ballots (remove1 loser standing) (order @ [loser]) e1"
      using False cl by (subst irv_loop.simps) simp
    have len: "length (remove1 loser standing) + 1 = length standing"
      using mem length_pos_if_in_set [of loser standing] by (simp add: length_remove1)
    from "1.prems" have st: "set (remove1 loser standing) = set standing - {loser}"
      by simp
    note IH = "1.IH" [OF False cl [symmetric] d]
    from IH have "distinct (fst (irv_loop G ballots standing order e))"
      unfolding step by simp
    moreover from IH st mem have "set (fst (irv_loop G ballots standing order e)) =
        set order \<union> set standing"
      unfolding step by auto
    moreover from IH len have "length (fst (irv_loop G ballots standing order e)) =
        length order + length standing"
      unfolding step by simp
    ultimately show ?thesis by simp
  qed
qed

lemma socialChoiceIRV_perm:
  "distinct (fst (socialChoiceIRV G ballots n e)) \<and>
   set (fst (socialChoiceIRV G ballots n e)) = {0 ..< n} \<and>
   length (fst (socialChoiceIRV G ballots n e)) = n"
  using irv_loop_perm [of "[]" "[0 ..< n]" G ballots e] by (simp add: socialChoiceIRV_def)

lemma index_ballot_inv:
  "dom c2 = set cn \<Longrightarrow> distinct cn \<Longrightarrow> index_ballot b c2 cn = (bi, c2a, cna) \<Longrightarrow>
   dom c2a = set cna \<and> distinct cna \<and> set cna = set cn \<union> set b"
proof (induction b arbitrary: c2 cn bi c2a cna)
  case Nil
  then show ?case by simp
next
  case (Cons x b)
  show ?case
  proof (cases "c2 x")
    case None
    obtain bi1 c21 cn1 where r: "index_ballot b (c2(x \<mapsto> length cn)) (cn @ [x]) = (bi1, c21, cn1)"
      by (cases "index_ballot b (c2(x \<mapsto> length cn)) (cn @ [x])") auto
    from None have "x \<notin> dom c2" by (simp add: domIff)
    with Cons.prems(1) have nx: "x \<notin> set cn" by simp
    have "dom (c2(x \<mapsto> length cn)) = set (cn @ [x])" using Cons.prems(1) by auto
    moreover have "distinct (cn @ [x])" using Cons.prems(2) nx by simp
    ultimately have "dom c21 = set cn1 \<and> distinct cn1 \<and> set cn1 = set (cn @ [x]) \<union> set b"
      using Cons.IH r by blast
    moreover from Cons.prems(3) None r have "c2a = c21" "cna = cn1" by simp_all
    ultimately show ?thesis by auto
  next
    case (Some i)
    obtain bi1 c21 cn1 where r: "index_ballot b c2 cn = (bi1, c21, cn1)"
      by (cases "index_ballot b c2 cn") auto
    from Some have "x \<in> dom c2" by (simp add: domIff)
    with Cons.prems(1) have mx: "x \<in> set cn" by simp
    have "dom c21 = set cn1 \<and> distinct cn1 \<and> set cn1 = set cn \<union> set b"
      using Cons.IH [OF Cons.prems(1) Cons.prems(2) r] .
    moreover from Cons.prems(3) Some r have "c2a = c21" "cna = cn1" by simp_all
    ultimately show ?thesis using mx by auto
  qed
qed

lemma index_ballots_inv:
  "dom c2 = set cn \<Longrightarrow> distinct cn \<Longrightarrow> index_ballots bs c2 cn = (sc, c2a, cna) \<Longrightarrow>
   dom c2a = set cna \<and> distinct cna \<and> set cna = set cn \<union> set (concat bs) \<and>
   (sc = []) = (concat bs = [])"
proof (induction bs arbitrary: c2 cn sc c2a cna)
  case Nil
  then show ?case by simp
next
  case (Cons b bs)
  show ?case
  proof (cases "b = []")
    case True
    with Cons.prems(3) have "index_ballots bs c2 cn = (sc, c2a, cna)" by simp
    from Cons.IH [OF Cons.prems(1) Cons.prems(2) this] True show ?thesis by simp
  next
    case False
    obtain bi c21 cn1 where r1: "index_ballot b c2 cn = (bi, c21, cn1)"
      by (cases "index_ballot b c2 cn") auto
    obtain sc2 c22 cn2 where r2: "index_ballots bs c21 cn1 = (sc2, c22, cn2)"
      by (cases "index_ballots bs c21 cn1") auto
    from index_ballot_inv [OF Cons.prems(1) Cons.prems(2) r1]
    have i1: "dom c21 = set cn1" "distinct cn1" "set cn1 = set cn \<union> set b" by simp_all
    from Cons.IH [OF i1(1) i1(2) r2]
    have i2: "dom c22 = set cn2" "distinct cn2" "set cn2 = set cn1 \<union> set (concat bs)"
      by simp_all
    from Cons.prems(3) False r1 r2 have "sc = (bi, 1) # sc2" "c2a = c22" "cna = cn2"
      by simp_all
    with i1 i2 False show ?thesis by auto
  qed
qed

lemma names_at_in_range:
  "(\<And>i. i \<in> set is \<Longrightarrow> i < length idx \<and> idx ! i < length cn) \<Longrightarrow>
   names_at cn idx is = Inr (map (\<lambda>i. cn ! (idx ! i)) is)"
  by (induction "is") simp_all


lemma index_ballots_start:
  assumes "index_ballots bs Map.empty [] = (sc, c2, cn)"
  shows "distinct cn" and "set cn = set (concat bs)" and "(sc = []) = (concat bs = [])"
    and "length cn = length (remdups (concat bs))"
proof -
  from index_ballots_inv [OF _ _ assms]
  have inv: "distinct cn \<and> set cn = set (concat bs) \<and> (sc = []) = (concat bs = [])"
    by simp
  then show "distinct cn" and "set cn = set (concat bs)" and "(sc = []) = (concat bs = [])"
    by simp_all
  from inv have "length cn = card (set (concat bs))" by (metis distinct_card)
  then show "length cn = length (remdups (concat bs))"
    by (simp add: length_remdups_card_conv)
qed

text \<open>
  Claim C9. The number of candidates of a call is the number of distinct names on its
  ballots. \<^verbatim>\<open>RSocialChoiceIRV\<close> is an error when \<open>nWinners\<close> is below 1 or not below
  the number of candidates, and when the ballot set is empty (no ballot, or empty ballots
  only). Otherwise it returns the eliminated candidates and the winners: \<open>nWinners\<close>
  winners, all the others eliminated, every candidate exactly once in the two lists
  together, which are, in this order, the elimination order of the social choice function
  written with the candidates' names.
\<close>

theorem RSocialChoiceIRV_contract:
  "if nWinners < 1 \<or> length (remdups (concat bs)) \<le> nWinners \<or> concat bs = []
   then \<exists>msg. RSocialChoiceIRV G (socialChoiceIRV G) bs nWinners seed
                 = Inl (InvalidArgument msg)
   else \<exists>elimination_order winners.
          RSocialChoiceIRV G (socialChoiceIRV G) bs nWinners seed
            = Inr (elimination_order, winners) \<and>
          length elimination_order = length (remdups (concat bs)) - nWinners \<and>
          length winners = nWinners \<and>
          distinct (elimination_order @ winners) \<and>
          set (elimination_order @ winners) = set (concat bs) \<and>
          elimination_order @ winners =
            map (nth (snd (snd (index_ballots bs Map.empty []))))
              (fst (socialChoiceIRV G (fst (index_ballots bs Map.empty []))
                      (length (remdups (concat bs)))
                      (discard G (state_size * 100) (seed_seq G seed))))"
proof -
  obtain sc c2 cn where ib: "index_ballots bs Map.empty [] = (sc, c2, cn)"
    by (cases "index_ballots bs Map.empty []") auto
  note cn = index_ballots_start [OF ib]
  let ?n = "length cn"
  let ?e = "discard G (state_size * 100) (seed_seq G seed)"
  obtain idx e1 where irv: "socialChoiceIRV G sc ?n ?e = (idx, e1)"
    by (cases "socialChoiceIRV G sc ?n ?e") auto
  show ?thesis
  proof (cases "nWinners < 1 \<or> ?n \<le> nWinners")
    case True
    then have "RSocialChoiceIRV G (socialChoiceIRV G) bs nWinners seed
                 = Inl (InvalidArgument nWinners_message)"
      by (simp add: RSocialChoiceIRV_def ib)
    with True cn(4) show ?thesis by auto
  next
    case False
    then have w: "1 \<le> nWinners" "nWinners < ?n" by simp_all
    then have "cn \<noteq> []" by auto
    with cn(2) have ne: "concat bs \<noteq> []" by (metis set_empty)
    with cn(3) have sc: "sc \<noteq> []" by simp
    have perm: "distinct idx" "set idx = {0 ..< ?n}" "length idx = ?n"
      using socialChoiceIRV_perm [of G sc ?n ?e] irv by simp_all
    have rng: "i < length idx \<and> idx ! i < length cn" if "i < ?n" for i
    proof -
      from that perm(3) have "idx ! i \<in> set idx" by simp
      with perm(2) that perm(3) show ?thesis by simp
    qed
    let ?elim = "map (\<lambda>i. cn ! (idx ! i)) [0 ..< ?n - nWinners]"
    let ?win = "map (\<lambda>i. cn ! (idx ! i)) [?n - nWinners ..< ?n]"
    have n1: "names_at cn idx [0 ..< ?n - nWinners] = Inr ?elim"
      by (rule names_at_in_range) (use rng in auto)
    have n2: "names_at cn idx [?n - nWinners ..< ?n] = Inr ?win"
      by (rule names_at_in_range) (use rng in auto)
    have res: "RSocialChoiceIRV G (socialChoiceIRV G) bs nWinners seed = Inr (?elim, ?win)"
      using False sc n1 n2 irv by (simp add: RSocialChoiceIRV_def ib Let_def)
    have "[0 ..< ?n - nWinners] @ [?n - nWinners ..< ?n] = [0 ..< ?n]"
      using w by (metis diff_le_self le0 upt_add_eq_append le_add_diff_inverse)
    then have "?elim @ ?win = map (\<lambda>i. cn ! (idx ! i)) [0 ..< ?n]"
      by (metis map_append)
    also have "\<dots> = map (nth cn) (map (nth idx) [0 ..< length idx])"
      by (simp add: perm(3))
    also have "\<dots> = map (nth cn) idx" by (simp only: map_nth)
    finally have cat: "?elim @ ?win = map (nth cn) idx" .
    have inj: "inj_on (nth cn) (set idx)"
      unfolding perm(2) using cn(1) by (auto simp: inj_on_def nth_eq_iff_index_eq)
    have d: "distinct (?elim @ ?win)"
      unfolding cat using perm(1) inj by (simp add: distinct_map)
    have "set (?elim @ ?win) = nth cn ` {0 ..< ?n}"
      unfolding cat using perm(2) by simp
    also have "\<dots> = set cn" by (metis atLeast0LessThan nth_image take_all order_refl)
    finally have s: "set (?elim @ ?win) = set (concat bs)" using cn(2) by simp
    have l1: "length ?elim = length (remdups (concat bs)) - nWinners"
      using cn(4) by simp
    have l2: "length ?win = nWinners" using w by simp
    from False ne cn(4)
    have c: "\<not> (nWinners < 1 \<or> length (remdups (concat bs)) \<le> nWinners \<or> concat bs = [])"
      by simp
    have last: "?elim @ ?win =
            map (nth (snd (snd (index_ballots bs Map.empty []))))
              (fst (socialChoiceIRV G (fst (index_ballots bs Map.empty []))
                      (length (remdups (concat bs)))
                      (discard G (state_size * 100) (seed_seq G seed))))"
      using cat cn(4) irv by (simp add: ib)
    from res l1 l2 d s last have
      "\<exists>elimination_order winners.
          RSocialChoiceIRV G (socialChoiceIRV G) bs nWinners seed
            = Inr (elimination_order, winners) \<and>
          length elimination_order = length (remdups (concat bs)) - nWinners \<and>
          length winners = nWinners \<and>
          distinct (elimination_order @ winners) \<and>
          set (elimination_order @ winners) = set (concat bs) \<and>
          elimination_order @ winners =
            map (nth (snd (snd (index_ballots bs Map.empty []))))
              (fst (socialChoiceIRV G (fst (index_ballots bs Map.empty []))
                      (length (remdups (concat bs)))
                      (discard G (state_size * 100) (seed_seq G seed))))"
      by blast
    with c show ?thesis by (simp only: if_False)
  qed
qed

section \<open>Properties of the posterior driver\<close>

text \<open>
  Every batch scores as many elections as \<^verbatim>\<open>posteriorSets\<close> returns, which is
  \<open>nBallots\<close> and not the batch size; the aggregation then adds one for each of the
  last \<open>nWinners\<close> entries of every elimination order.
\<close>

lemma score_elections_all:
  assumes "\<And>el e. P (fst (irv el n e))"
  shows "list_all P (fst (score_elections irv n els e)) \<and>
         length (fst (score_elections irv n els e)) = length els"
proof (induction els arbitrary: e)
  case Nil
  show ?case by simp
next
  case (Cons el els)
  obtain order e1 where a: "irv el n e = (order, e1)" by (cases "irv el n e") auto
  obtain rs e2 where b: "score_elections irv n els e1 = (rs, e2)"
    by (cases "score_elections irv n els e1") auto
  from assms [of el e] a have "P order" by simp
  with Cons [of e1] a b show ?case by simp
qed

lemma getBatchResult_all:
  assumes "\<And>el e. P (fst (irv el n e))"
  shows "list_all P (fst (getBatchResult G T irv seeds nBallots n i batchSize t)) \<and>
         length (fst (getBatchResult G T irv seeds nBallots n i batchSize t)) = nBallots"
proof -
  let ?e = "discard G (state_size * 100) (seed_value G (seeds ! i))"
  obtain els eo t1 where p: "posteriorSets T (int batchSize) (int nBallots) (Some ?e) t = (els, eo, t1)"
    by (cases "posteriorSets T (int batchSize) (int nBallots) (Some ?e) t") auto
  have "length (fst (posteriorSets T (int batchSize) (int nBallots) (Some ?e) t)) = nBallots"
    by (simp add: posteriorSets_def posteriorSets_loop_length)
  with p have len: "length els = nBallots" by simp
  from score_elections_all [of P irv n els, OF assms] len p
  show ?thesis by (simp add: getBatchResult_def Let_def)
qed

lemma run_batches_all:
  assumes "\<And>el e. P (fst (irv el n e))"
  shows "list_all P (concat (fst (run_batches G T irv seeds nBallots n batchSize is t))) \<and>
         length (concat (fst (run_batches G T irv seeds nBallots n batchSize is t)))
           = length is * nBallots"
proof (induction "is" arbitrary: t)
  case Nil
  show ?case by simp
next
  case (Cons i "is")
  obtain r t1 where a: "getBatchResult G T irv seeds nBallots n i batchSize t = (r, t1)"
    by (cases "getBatchResult G T irv seeds nBallots n i batchSize t") auto
  obtain rs t2 where b: "run_batches G T irv seeds nBallots n batchSize is t1 = (rs, t2)"
    by (cases "run_batches G T irv seeds nBallots n batchSize is t1") auto
  from getBatchResult_all [of P irv n G T seeds nBallots i batchSize t, OF assms] a
  have "list_all P r" "length r = nBallots" by simp_all
  with Cons [of t1] a b show ?case by simp
qed

lemma sum_list_bump:
  "i < length (out :: real list) \<Longrightarrow> sum_list (out[i := out ! i + 1]) = sum_list out + 1"
proof (induction out arbitrary: i)
  case Nil
  then show ?case by simp
next
  case (Cons x out)
  then show ?case by (cases i) simp_all
qed

lemma count_winners_sum:
  "order_ok n order \<Longrightarrow> length out = n \<Longrightarrow> list_all (\<lambda>i. i < n) idx \<Longrightarrow>
   \<exists>out1. count_winners out order idx = Inr out1 \<and> length out1 = n \<and>
          sum_list out1 = sum_list out + real (length idx)"
proof (induction idx arbitrary: out)
  case Nil
  then show ?case by simp
next
  case (Cons i idx)
  from Cons.prems have i: "i < length order" "order ! i < length out"
    by (auto simp: order_ok_def list_all_length)
  let ?out = "out[order ! i := out ! (order ! i) + 1]"
  from Cons.prems have "length ?out = n" "list_all (\<lambda>i. i < n) idx" by simp_all
  from Cons.IH [OF Cons.prems(1) this]
  obtain out1 where "count_winners ?out order idx = Inr out1" "length out1 = n"
    "sum_list out1 = sum_list ?out + real (length idx)" by blast
  with i sum_list_bump [OF i(2)] show ?case by simp
qed

lemma aggregate_sum:
  "list_all (order_ok n) rs \<Longrightarrow> length out = n \<Longrightarrow> list_all (\<lambda>i. i < n) idx \<Longrightarrow>
   \<exists>out1. aggregate out rs idx = Inr out1 \<and> length out1 = n \<and>
          sum_list out1 = sum_list out + real (length rs * length idx)"
proof (induction rs arbitrary: out)
  case Nil
  then show ?case by simp
next
  case (Cons order rs)
  from Cons.prems have "order_ok n order" by simp
  from count_winners_sum [OF this Cons.prems(2) Cons.prems(3)]
  obtain out0 where a: "count_winners out order idx = Inr out0" "length out0 = n"
    "sum_list out0 = sum_list out + real (length idx)" by blast
  from Cons.prems have "list_all (order_ok n) rs" by simp
  from Cons.IH [OF this a(2) Cons.prems(3)]
  obtain out1 where "aggregate out0 rs idx = Inr out1" "length out1 = n"
    "sum_list out1 = sum_list out0 + real (length rs * length idx)" by blast
  with a show ?case by (simp add: algebra_simps)
qed

lemma socialChoiceIRV_order_ok: "order_ok n (fst (socialChoiceIRV G el n e))"
  using socialChoiceIRV_perm [of G el n e] by (auto simp: order_ok_def list_all_iff)


lemma sum_list_divide: "sum_list (map (\<lambda>x. x / c) (out :: real list)) = sum_list out / c"
  by (induction out) (simp_all add: add_divide_distrib)

lemma winner_range_ok:
  "nWinners \<le> n \<Longrightarrow>
   list_all (\<lambda>i. i < n) (winner_range n nWinners) \<and> length (winner_range n nWinners) = nWinners"
  by (simp add: winner_range_def list_all_iff)

lemma samplePosterior_sum:
  assumes obs: "nObserved s \<le> nBallots"
    and win: "nWinners \<le> nCandidates (parameters (tree s))"
    and div: "\<not> (1 < nElections \<and> nBatches = 0)"
  shows "\<exists>out. fst (samplePosterior G T (socialChoiceIRV G) nElections nBallots nWinners
                     nBatches seed s) = Inr out \<and>
           length out = nCandidates (parameters (tree s)) \<and>
           sum_list out =
             real ((nBatches * nBallots +
                    (if 0 < (if nElections \<le> 1 then nElections else nElections mod nBatches)
                     then nBallots else 0)) * nWinners) / real nElections"
proof -
  let ?irv = "socialChoiceIRV G"
  let ?t1 = "setSeed G seed (tree s)"
  let ?n = "nCandidates (parameters (tree s))"
  let ?bS = "if nElections \<le> 1 then 0 else nElections div nBatches"
  let ?bR = "if nElections \<le> 1 then nElections else nElections mod nBatches"
  have n: "nCandidates (parameters ?t1) = ?n" by (simp add: setSeed_def)
  obtain seeds e1 where ds: "draw_seeds G (Suc nBatches) (engine ?t1) = (seeds, e1)"
    by (cases "draw_seeds G (Suc nBatches) (engine ?t1)") auto
  let ?t2 = "?t1\<lparr>engine := discard G (state_size * 100) e1\<rparr>"
  obtain rs t3 where rb:
    "run_batches G T ?irv seeds nBallots ?n ?bS [0 ..< nBatches] ?t2 = (rs, t3)"
    by (cases "run_batches G T ?irv seeds nBallots ?n ?bS [0 ..< nBatches] ?t2") auto
  obtain r t4 where rem:
    "(if ?bR > 0 then getBatchResult G T ?irv seeds nBallots ?n nBatches ?bR t3 else ([], t3))
       = (r, t4)"
    by (cases "if ?bR > 0 then getBatchResult G T ?irv seeds nBallots ?n nBatches ?bR t3
               else ([], t3)") auto
  have ok: "\<And>el e. order_ok ?n (fst (?irv el ?n e))" by (rule socialChoiceIRV_order_ok)
  from run_batches_all [of "order_ok ?n" ?irv ?n G T seeds nBallots ?bS "[0 ..< nBatches]" ?t2,
      OF ok] rb
  have rs: "list_all (order_ok ?n) (concat rs)" "length (concat rs) = nBatches * nBallots"
    by simp_all
  have r: "list_all (order_ok ?n) r \<and> length r = (if 0 < ?bR then nBallots else 0)"
  proof (cases "0 < ?bR")
    case True
    with rem have "getBatchResult G T ?irv seeds nBallots ?n nBatches ?bR t3 = (r, t4)"
      by (simp only: if_True)
    with getBatchResult_all [of "order_ok ?n" ?irv ?n G T seeds nBallots nBatches ?bR t3, OF ok]
      True
    show ?thesis by simp
  next
    case False
    with rem have "r = []" by (simp only: if_False) simp
    with False show ?thesis by simp
  qed
  let ?all = "concat (rs @ [r])"
  from rs r have all: "list_all (order_ok ?n) ?all"
    "length ?all = nBatches * nBallots + (if 0 < ?bR then nBallots else 0)"
    by simp_all
  from winner_range_ok [OF win]
  have wr: "list_all (\<lambda>i. i < ?n) (winner_range ?n nWinners)"
    "length (winner_range ?n nWinners) = nWinners" by simp_all
  have l0: "length (replicate ?n (0::real)) = ?n" by simp
  from aggregate_sum [OF all(1) l0 wr(1)]
  obtain out1 where agg: "aggregate (replicate ?n 0) ?all (winner_range ?n nWinners) = Inr out1"
    and len: "length out1 = ?n"
    and sum0: "sum_list out1 = sum_list (replicate ?n (0::real)) +
                 real (length ?all * length (winner_range ?n nWinners))"
    by blast
  have "sum_list (replicate k (0::real)) = 0" for k by (induction k) simp_all
  with sum0 have sum: "sum_list out1 = real (length ?all * length (winner_range ?n nWinners))"
    by simp
  have res: "fst (samplePosterior G T ?irv nElections nBallots nWinners nBatches seed s)
               = Inr (map (\<lambda>x. x / real nElections) out1)"
  proof -
    from obs have g: "\<not> nBallots < nObserved s" by simp
    show ?thesis
      unfolding samplePosterior_def Let_def
      by (simp only: g div n ds rb rem agg if_False prod.case sum.case fst_conv)
  qed
  from sum have sum1: "sum_list out1 =
      real ((nBatches * nBallots + (if 0 < ?bR then nBallots else 0)) * nWinners)"
    by (simp only: all(2) wr(2))
  have "length (map (\<lambda>x. x / real nElections) out1) = ?n" using len by simp
  moreover have "sum_list (map (\<lambda>x. x / real nElections) out1) =
      real ((nBatches * nBallots + (if 0 < ?bR then nBallots else 0)) * nWinners)
        / real nElections"
    by (simp only: sum_list_divide sum1)
  ultimately show ?thesis using res by blast
qed

text \<open>
  Claim C3. The driver divides the counts by \<open>nElections\<close>, but the number of elections
  it has scored is \<open>nBallots\<close> for every batch and \<open>nBallots\<close> more for the remainder.
  Over two candidates and with nothing observed, one election of two ballots with one
  winner and one batch returns a vector of length 2 whose entries sum to 4, not to 1,
  whatever the engine, the node type and the seed.
\<close>

theorem samplePosterior_sums_to_four:
  "\<exists>out. fst (samplePosterior G T (socialChoiceIRV G) 1 2 1 1 seed
                 (RDirichletTree_new G T [''A'', ''B''] 0 2 1 False seed0)) = Inr out \<and>
         length out = 2 \<and> sum_list out = 4"
proof -
  let ?s = "RDirichletTree_new G T [''A'', ''B''] 0 2 1 False seed0"
  have n: "nCandidates (parameters (tree ?s)) = 2"
    by (simp add: RDirichletTree_new_def DirichletTree_new_def)
  have a: "nObserved ?s \<le> 2" by (simp add: RDirichletTree_new_def)
  have b: "1 \<le> nCandidates (parameters (tree ?s))" by (simp add: n)
  have c: "\<not> (1 < (1::nat) \<and> (1::nat) = 0)" by simp
  from samplePosterior_sum [OF a b c, of G T seed]
  obtain out where "fst (samplePosterior G T (socialChoiceIRV G) 1 2 1 1 seed ?s) = Inr out"
    and "length out = nCandidates (parameters (tree ?s))"
    and "sum_list out = real ((1 * 2 + (if 0 < (if (1::nat) \<le> 1 then (1::nat) else 1 mod 1)
                                        then 2 else 0)) * 1) / real 1"
    by blast
  then show ?thesis unfolding n by simp
qed

end
